theory Spec2Isabelle
  imports Complex_Main "HOL-Library.AList" "HOL-Library.Sublist"
begin

section \<open>Python values used by the application\<close>

subsection \<open>Strings: \<^verbatim>\<open>str.replace\<close>\<close>

text \<open>
  \<^verbatim>\<open>s.replace(old, new)\<close> replaces the non-overlapping occurrences of \<open>old\<close> in
  \<open>s\<close>, scanning from the left. With an empty \<open>old\<close> Python puts \<open>new\<close> before every
  character and at the end.
\<close>

fun replace_from :: "string \<Rightarrow> string \<Rightarrow> string \<Rightarrow> string" where
  "replace_from old new [] = []"
| "replace_from old new (c # cs) =
     (if old \<noteq> [] \<and> take (length old) (c # cs) = old
      then new @ replace_from old new (drop (length old) (c # cs))
      else c # replace_from old new cs)"

definition str_replace :: "string \<Rightarrow> string \<Rightarrow> string \<Rightarrow> string" where
  "str_replace s old new =
     (if old = [] then new @ concat (map (\<lambda>c. c # new) s) else replace_from old new s)"

subsection \<open>JSON values and dictionaries\<close>

text \<open>
  \<^verbatim>\<open>request.json\<close> is the parsed JSON body. Numbers are kept as integers: the
  application only ever renders a field value into a prompt.
\<close>

datatype json =
    JNull
  | JBool bool
  | JInt int
  | JStr string
  | JArr "json list"
  | JObj "(string \<times> json) list"

text \<open>
  A Python \<^verbatim>\<open>dict\<close> is an association list in insertion order.
  \<^verbatim>\<open>d[k] = v\<close> overwrites the value of an existing key in place and appends a new key:
  this is \<^const>\<open>AList.update\<close>. \<^verbatim>\<open>d.get(k)\<close> is \<^const>\<open>map_of\<close>.
\<close>

type_synonym 'v dict = "(string \<times> 'v) list"

definition dict_keys :: "'v dict \<Rightarrow> string set" where
  "dict_keys d = fst ` set d"

section \<open>Key sanitization (app.py, lines 152-156 and 243-247)\<close>

text \<open>
  \<^verbatim>\<open>new_key = key.replace("'", "").replace('"', "")\<close> in \<^verbatim>\<open>PostGenerator\<close>;
  \<^verbatim>\<open>BlogPostGenerator\<close> appends \<^verbatim>\<open>.replace("`", "")\<close>.
\<close>

definition PostGenerator_new_key :: "string \<Rightarrow> string" where
  "PostGenerator_new_key key = str_replace (str_replace key [CHR 0x27] []) [CHR 0x22] []"

definition BlogPostGenerator_new_key :: "string \<Rightarrow> string" where
  "BlogPostGenerator_new_key key =
     str_replace (str_replace (str_replace key [CHR 0x27] []) [CHR 0x22] []) [CHR 0x60] []"

text \<open>
  The loop \<^verbatim>\<open>for key, value in request_data.items(): sanitized_data[new_key] = value\<close>,
  with the dictionary built so far as accumulator.
\<close>

fun sanitize_items :: "(string \<Rightarrow> string) \<Rightarrow> 'v dict \<Rightarrow> 'v dict \<Rightarrow> 'v dict" where
  "sanitize_items new_key [] sanitized_data = sanitized_data"
| "sanitize_items new_key ((key, value) # items) sanitized_data =
     sanitize_items new_key items (AList.update (new_key key) value sanitized_data)"

definition PostGenerator_sanitized_data :: "'v dict \<Rightarrow> 'v dict" where
  "PostGenerator_sanitized_data request_data =
     sanitize_items PostGenerator_new_key request_data []"

definition BlogPostGenerator_sanitized_data :: "'v dict \<Rightarrow> 'v dict" where
  "BlogPostGenerator_sanitized_data request_data =
     sanitize_items BlogPostGenerator_new_key request_data []"

section \<open>Prompt construction (app.py, lines 158-230 and 249-320)\<close>

text \<open>
  An f-string is a sequence of literal pieces and replacement fields. Every replacement
  field of the two generators has the form \<^verbatim>\<open>{sanitized_data.get(KEY, "")}\<close>.
\<close>

datatype segment = Lit string | Get string

text \<open>
  A replacement field is formatted with \<^verbatim>\<open>format(value, "")\<close>, which for a string is
  the string itself; how Python prints any other JSON value (\<^verbatim>\<open>str\<close> of a list, a
  number, \<^verbatim>\<open>None\<close>) is the parameter \<open>str_other\<close>.
\<close>

fun format_value :: "(json \<Rightarrow> string) \<Rightarrow> json \<Rightarrow> string" where
  "format_value str_other (JStr s) = s"
| "format_value str_other v = str_other v"

text \<open>\<^verbatim>\<open>sanitized_data.get(key, "")\<close>, formatted: the default is the empty string.\<close>

definition get_formatted :: "(json \<Rightarrow> string) \<Rightarrow> json dict \<Rightarrow> string \<Rightarrow> string" where
  "get_formatted str_other sanitized_data key =
     (case map_of sanitized_data key of
        None \<Rightarrow> []
      | Some v \<Rightarrow> format_value str_other v)"

fun eval_segment :: "(json \<Rightarrow> string) \<Rightarrow> json dict \<Rightarrow> segment \<Rightarrow> string" where
  "eval_segment str_other sanitized_data (Lit s) = s"
| "eval_segment str_other sanitized_data (Get key) = get_formatted str_other sanitized_data key"

definition fstring :: "(json \<Rightarrow> string) \<Rightarrow> json dict \<Rightarrow> segment list \<Rightarrow> string" where
  "fstring str_other sanitized_data segs = concat (map (eval_segment str_other sanitized_data) segs)"

text \<open>The text of the four f-strings, line by line as in the source.\<close>

definition PostGenerator_system_content_fstring :: "segment list" where
  "PostGenerator_system_content_fstring =
    [Lit ''\<newline>'',
     Lit ''        You are an expert senior copywriter and social media marketer who helps business '',
     Lit ''leaders and subject matter experts convert their spoken words into polished, \<newline>'',
     Lit ''        clear and articulate text content. Your core function is to turn AI transcripts '',
     Lit ''from recorded calls into social media marketing posts that establish the writer \<newline>'',
     Lit ''        as a thought leader in their space, educate customers and prospects, and/or market '',
     Lit ''the company the leader or subject matter expert works for.\<newline>'',
     Lit ''     \<newline>'',
     Lit ''        <Context>\<newline>'',
     Lit ''            Please review the various pieces of context below on the creator, their '',
     Lit ''company, their brand, their social post style guide, and more.\<newline>'',
     Lit ''\<newline>'',
     Lit ''            <company_name>\<newline>'',
     Lit ''            Company Name: '',
     Get ''6.Name'',
     Lit ''\<newline>'',
     Lit ''            </company_name>\<newline>'',
     Lit ''\<newline>'',
     Lit ''            <company_description>\<newline>'',
     Lit ''            Company Description: '',
     Get ''6.Company Description'',
     Lit ''\<newline>'',
     Lit ''            </company_description>\<newline>'',
     Lit ''\<newline>'',
     Lit ''            <creator_name>\<newline>'',
     Lit ''            Creator Name: '',
     Get ''11.Full Name'',
     Lit ''\<newline>'',
     Lit ''            </creator_name>\<newline>'',
     Lit ''\<newline>'',
     Lit ''            Please read the bio below of the creator who will be seen as the author of this '',
     Lit ''social post. This creator is also the person who recorded what is in the AI transcript.\<newline>'',
     Lit ''\<newline>'',
     Lit ''            <creator_bio>\<newline>'',
     Lit ''            Creator Bio: '',
     Get ''11.Bio'',
     Lit ''\<newline>'',
     Lit ''            </creator_bio>\<newline>'',
     Lit ''\<newline>'',
     Lit ''            <optional_context>\<newline>'',
     Lit ''            The items below may or may not have values. If they're empty just ignore them '',
     Lit ''when creating the social post text.\<newline>'',
     Lit ''\<newline>'',
     Lit ''            Brand Values: '',
     Get ''7.Brand Values'',
     Lit ''\<newline>'',
     Lit ''            Brand Personalities: '',
     Get ''7.Brand Personalities'',
     Lit ''\<newline>'',
     Lit ''            Tone of Voice Principles: '',
     Get ''7.Tone of Voice Principles'',
     Lit ''\<newline>'',
     Lit ''            Language Dos: '',
     Get ''7.Language Dos'',
     Lit ''\<newline>'',
     Lit ''            Language Donts: '',
     Get ''7.Language Donts'',
     Lit ''\<newline>'',
     Lit ''            Audience Adapatations: '',
     Get ''7.Audience Adaptations'',
     Lit ''\<newline>'',
     Lit ''            On Brand Examples: '',
     Get ''7.On Brand Examples'',
     Lit ''\<newline>'',
     Lit ''            Off Brand Examples: '',
     Get ''7.Off Brand (Bad) Examples'',
     Lit ''\<newline>'',
     Lit ''            Narrative Style: '',
     Get ''7.Narrative and Storytelling Style'',
     Lit ''\<newline>'',
     Lit ''            Key Messages: '',
     Get ''7.Key Messages'',
     Lit ''\<newline>'',
     Lit ''            Social Post Style Guide: '',
     Get ''7.Social Post Writing Style Guide'',
     Lit ''\<newline>'',
     Lit ''            Audience Information: '',
     Get ''14.array'',
     Lit ''\<newline>'',
     Lit ''            Solutions Information: '',
     Get ''13.array'',
     Lit ''\<newline>'',
     Lit ''            </optional_context>\<newline>'',
     Lit ''            </context>\<newline>'',
     Lit ''            \<newline>'',
     Lit ''            <examples>\<newline>'',
     Lit ''            <example1>\<newline>'',
     Lit ''            '',
     Get ''11.Social Post Sample 1'',
     Lit ''\<newline>'',
     Lit ''            </example1>\<newline>'',
     Lit ''            <example2>\<newline>'',
     Lit ''            '',
     Get ''11.Social Post Sample 2'',
     Lit ''\<newline>'',
     Lit ''            </example2>\<newline>'',
     Lit ''            <example3>\<newline>'',
     Lit ''            '',
     Get ''11.Social Post Sample 3'',
     Lit ''\<newline>'',
     Lit ''            </example3>\<newline>'',
     Lit ''            </examples>\<newline>'',
     Lit ''    '']"

definition PostGenerator_user_content_fstring :: "segment list" where
  "PostGenerator_user_content_fstring =
    [Lit ''\<newline>'',
     Lit ''        Please write a social media post using your system instructions and given the AI '',
     Lit ''transcript and topic below:\<newline>'',
     Lit ''\<newline>'',
     Lit ''        <ai_transcript>\<newline>'',
     Lit ''        AI Transcript: '',
     Get ''2.AI Transcript Rough'',
     Lit ''\<newline>'',
     Lit ''        </ai_transcript>\<newline>'',
     Lit ''        <topic>\<newline>'',
     Lit ''        Topic Name: '',
     Get ''12.Topic Name'',
     Lit ''\<newline>'',
     Lit ''        </topic>\<newline>'',
     Lit ''    '']"

definition BlogPostGenerator_system_content_fstring :: "segment list" where
  "BlogPostGenerator_system_content_fstring =
    [Lit ''\<newline>'',
     Lit ''        You are an expert content strategist and SEO specialist who helps convert '',
     Lit ''spoken-word transcripts into \<newline>'',
     Lit ''        professional, optimized blog posts. Your goal is to create long-form content that '',
     Lit ''ranks well in search engines\<newline>'',
     Lit ''        while maintaining natural readability and thought leadership.\<newline>'',
     Lit ''\<newline>'',
     Lit ''        <Context>\<newline>'',
     Lit ''            <company_name>\<newline>'',
     Lit ''            Company Name: '',
     Get ''6.Name'',
     Lit ''\<newline>'',
     Lit ''            </company_name>\<newline>'',
     Lit ''\<newline>'',
     Lit ''            <company_description>\<newline>'',
     Lit ''            Company Description: '',
     Get ''6.Company Description'',
     Lit ''\<newline>'',
     Lit ''            </company_description>\<newline>'',
     Lit ''\<newline>'',
     Lit ''            <creator_name>\<newline>'',
     Lit ''            Creator Name: '',
     Get ''11.Full Name'',
     Lit ''\<newline>'',
     Lit ''            </creator_name>\<newline>'',
     Lit ''\<newline>'',
     Lit ''            <creator_bio>\<newline>'',
     Lit ''            Creator Bio: '',
     Get ''11.Bio'',
     Lit ''\<newline>'',
     Lit ''            </creator_bio>\<newline>'',
     Lit ''\<newline>'',
     Lit ''            <style_guide>\<newline>'',
     Lit ''            Long Form Style Guide: '',
     Get ''7.Long Form Writing Style Guide'',
     Lit ''\<newline>'',
     Lit ''            </style_guide>\<newline>'',
     Lit ''\<newline>'',
     Lit ''            <optional_context>\<newline>'',
     Lit ''            Brand Values: '',
     Get ''7.Brand Values'',
     Lit ''\<newline>'',
     Lit ''            Tone Guidelines: '',
     Get ''7.Tone of Voice Principles'',
     Lit ''\<newline>'',
     Lit ''            Audience: '',
     Get ''14.array'',
     Lit ''\<newline>'',
     Lit ''            Solutions: '',
     Get ''13.array'',
     Lit ''\<newline>'',
     Lit ''            </optional_context>\<newline>'',
     Lit ''        </context>\<newline>'',
     Lit ''\<newline>'',
     Lit ''        <examples>\<newline>'',
     Lit ''        <example1>\<newline>'',
     Lit ''        '',
     Get ''11.Long Form Text Sample 1'',
     Lit ''\<newline>'',
     Lit ''        </example1>\<newline>'',
     Lit ''        <example2>\<newline>'',
     Lit ''        '',
     Get ''11.Long Form Text Sample 2'',
     Lit ''\<newline>'',
     Lit ''        </example2>\<newline>'',
     Lit ''        <example3>\<newline>'',
     Lit ''        '',
     Get ''11.Long Form Text Sample 3'',
     Lit ''\<newline>'',
     Lit ''        </example3>\<newline>'',
     Lit ''        </examples>\<newline>'',
     Lit ''    '']"

definition BlogPostGenerator_user_content_fstring :: "segment list" where
  "BlogPostGenerator_user_content_fstring =
    [Lit ''\<newline>'',
     Lit ''        Create an SEO-optimized blog post from this transcript and topic:\<newline>'',
     Lit ''\<newline>'',
     Lit ''        <ai_transcript>\<newline>'',
     Lit ''        '',
     Get ''2.AI Transcript Rough'',
     Lit ''\<newline>'',
     Lit ''        </ai_transcript>\<newline>'',
     Lit ''\<newline>'',
     Lit ''        <topic>\<newline>'',
     Lit ''        '',
     Get ''12.Topic Name'',
     Lit ''\<newline>'',
     Lit ''        </topic>\<newline>'',
     Lit ''\<newline>'',
     Lit ''        Follow these structural requirements:\<newline>'',
     Lit ''        - Start with SEO frontmatter section\<newline>'',
     Lit ''        - Use proper heading hierarchy (H1 > H2 > H3)\<newline>'',
     Lit ''        - Include at least one bulleted list\<newline>'',
     Lit ''        - Keep paragraphs under 5 lines\<newline>'',
     Lit ''        - Use transitional phrases between sections\<newline>'',
     Lit ''        - Include natural keyword placement\<newline>'',
     Lit ''        - Add 3-5 relevant hashtags at end\<newline>'',
     Lit ''    '']"

record message =
  role :: string
  content :: string

definition PostGenerator_system_content :: "(json \<Rightarrow> string) \<Rightarrow> json dict \<Rightarrow> string" where
  "PostGenerator_system_content str_other sanitized_data =
     fstring str_other sanitized_data PostGenerator_system_content_fstring"

definition PostGenerator_user_content :: "(json \<Rightarrow> string) \<Rightarrow> json dict \<Rightarrow> string" where
  "PostGenerator_user_content str_other sanitized_data =
     fstring str_other sanitized_data PostGenerator_user_content_fstring"

definition PostGenerator_messages :: "(json \<Rightarrow> string) \<Rightarrow> json dict \<Rightarrow> message list" where
  "PostGenerator_messages str_other sanitized_data =
     [\<lparr>role = ''system'', content = PostGenerator_system_content str_other sanitized_data\<rparr>,
      \<lparr>role = ''user'', content = PostGenerator_user_content str_other sanitized_data\<rparr>]"

definition BlogPostGenerator_system_content :: "(json \<Rightarrow> string) \<Rightarrow> json dict \<Rightarrow> string" where
  "BlogPostGenerator_system_content str_other sanitized_data =
     fstring str_other sanitized_data BlogPostGenerator_system_content_fstring"

definition BlogPostGenerator_user_content :: "(json \<Rightarrow> string) \<Rightarrow> json dict \<Rightarrow> string" where
  "BlogPostGenerator_user_content str_other sanitized_data =
     fstring str_other sanitized_data BlogPostGenerator_user_content_fstring"

definition BlogPostGenerator_messages :: "(json \<Rightarrow> string) \<Rightarrow> json dict \<Rightarrow> message list" where
  "BlogPostGenerator_messages str_other sanitized_data =
     [\<lparr>role = ''system'', content = BlogPostGenerator_system_content str_other sanitized_data\<rparr>,
      \<lparr>role = ''user'', content = BlogPostGenerator_user_content str_other sanitized_data\<rparr>]"

section \<open>Errors\<close>

text \<open>
  The exceptions that can reach a request handler, each with the text \<^verbatim>\<open>str(e)\<close> gives.
  \<open>GenerationFailure\<close> and \<open>ProviderFailure\<close> are the two failures of the completion
  client: retries exhausted without a valid instance, and a failed remote call.
\<close>

datatype error =
    AttributeError string
  | TypeError string
  | ValueError string
  | GenerationFailure string
  | ProviderFailure string

fun str_error :: "error \<Rightarrow> string" where
  "str_error (AttributeError m) = m"
| "str_error (TypeError m) = m"
| "str_error (ValueError m) = m"
| "str_error (GenerationFailure m) = m"
| "str_error (ProviderFailure m) = m"

fun type_name :: "json \<Rightarrow> string" where
  "type_name JNull = ''NoneType''"
| "type_name (JBool b) = ''bool''"
| "type_name (JInt i) = ''int''"
| "type_name (JStr s) = ''str''"
| "type_name (JArr xs) = ''list''"
| "type_name (JObj kvs) = ''dict''"

section \<open>Content schemas (app.py, lines 48-149)\<close>

text \<open>
  A field is declared as \<^verbatim>\<open>name: annotation = Field(..., constraints, description=text)\<close>.
  The ellipsis makes the field required.
\<close>

datatype annotation = Str | ListStr

record Field =
  max_length :: "nat option"
  min_length :: "nat option"
  min_items :: "nat option"
  max_items :: "nat option"
  description :: string

definition SocialMediaPost_title_description :: string where
  "SocialMediaPost_title_description =
     ''CONCISE TITLE (70 CHARACTER MAX). MUST USE SENTENCE CASE. First word capitalized, rest '' @
     ''lowercase except proper nouns/acronyms. BAD EXAMPLE: 'Adapting to Evolving B2B Buyer '' @
     ''Behavior' GOOD EXAMPLE: 'Adapting to evolving B2B buyer behavior'' @
     [CHR 0x27]"

definition SocialMediaPost_body_description :: string where
  "SocialMediaPost_body_description =
     ''STRUCTURED CONTENT (100-350 WORDS):\<newline>'' @
     ''1. [HOOK] <150 characters on first line\<newline>'' @
     ''2. [BODY] Concise paragraphs <200 characters each\<newline>'' @
     ''3. [CONCLUSION] Strong ending <200 characters\<newline>'' @
     ''FORMAT:\<newline>'' @
     ''Hook text here\<newline>'' @
     ''\<newline>'' @
     ''Paragraph 1\<newline>'' @
     ''\<newline>'' @
     ''Paragraph 2\<newline>'' @
     ''\<newline>'' @
     ''Final conclusion/question''"

definition SocialMediaPost_hashtags_description :: string where
  "SocialMediaPost_hashtags_description =
     ''EXACTLY 3 HASHTAGS:\<newline>'' @
     ''1. #broad_subject (common)\<newline>'' @
     ''2. #specific_term (from transcript)\<newline>'' @
     ''3. #CustomTerm (unique blend)''"

definition BlogPost_title_description :: string where
  "BlogPost_title_description =
     ''CATCHY, SEO-OPTIMIZED TITLE (120 CHARACTER MAX). Must include primary keyword '' @
     ''naturally. Use title case formatting.''"

definition BlogPost_contentBody_description :: string where
  "BlogPost_contentBody_description =
     ''STRUCTURED MARKDOWN CONTENT:\<newline>'' @
     ''1. SEO SECTION (frontmatter):\<newline>'' @
     ''   - Focus Keyword: [primary keyword]\<newline>'' @
     ''   - Meta Title: [60 character max]\<newline>'' @
     ''   - Meta Description: [160 character max]\<newline>'' @
     ''   - URL: [slug suggestion]\<newline>'' @
     ''2. CONTENT BODY:\<newline>'' @
     ''   - H1 Headline\<newline>'' @
     ''   - Minimum 3 H2 sections\<newline>'' @
     ''   - Use H3s where appropriate\<newline>'' @
     ''   - Include 1-2 lists\<newline>'' @
     ''   - Conclusion with summary\<newline>'' @
     ''FORMAT:\<newline>'' @
     ''---\<newline>'' @
     ''Focus Keyword: ...\<newline>'' @
     ''Meta Title: ...\<newline>'' @
     ''Meta Description: ...\<newline>'' @
     ''URL: ...\<newline>'' @
     ''---\<newline>'' @
     ''\<newline>'' @
     ''# Main Headline\<newline>'' @
     ''\<newline>'' @
     ''## Section 1\<newline>'' @
     ''\<newline>'' @
     ''Content...\<newline>'' @
     ''\<newline>'' @
     ''## Section 2\<newline>'' @
     ''\<newline>'' @
     ''- List item\<newline>'' @
     ''- List item\<newline>'' @
     ''\<newline>'' @
     ''### Subsection\<newline>'' @
     ''\<newline>'' @
     ''Content...\<newline>'' @
     ''\<newline>'' @
     ''## Conclusion\<newline>'' @
     ''\<newline>'' @
     ''Final summary...''"

definition BlogPost_hashtags_description :: string where
  "BlogPost_hashtags_description =
     ''3-5 HASHTAGS FOR SOCIAL SHARING:\<newline>'' @
     ''Mix of industry topics and specific terms''"

datatype response_model = SocialMediaPost | BlogPost

fun model_fields :: "response_model \<Rightarrow> (string \<times> annotation \<times> Field) list" where
  "model_fields SocialMediaPost =
     [(''title'', Str,
         \<lparr>max_length = Some 70, min_length = None, min_items = None, max_items = None,
          description = SocialMediaPost_title_description\<rparr>),
      (''body'', Str,
         \<lparr>max_length = Some 2100, min_length = Some 500, min_items = None, max_items = None,
          description = SocialMediaPost_body_description\<rparr>),
      (''hashtags'', ListStr,
         \<lparr>max_length = None, min_length = None, min_items = Some 3, max_items = Some 3,
          description = SocialMediaPost_hashtags_description\<rparr>)]"
| "model_fields BlogPost =
     [(''title'', Str,
         \<lparr>max_length = Some 120, min_length = None, min_items = None, max_items = None,
          description = BlogPost_title_description\<rparr>),
      (''contentBody'', Str,
         \<lparr>max_length = Some 4000, min_length = Some 2800, min_items = None, max_items = None,
          description = BlogPost_contentBody_description\<rparr>),
      (''hashtags'', ListStr,
         \<lparr>max_length = None, min_length = None, min_items = Some 3, max_items = Some 5,
          description = BlogPost_hashtags_description\<rparr>)]"

subsection \<open>Validation of a produced object against a schema\<close>

definition at_least :: "nat option \<Rightarrow> nat \<Rightarrow> bool" where
  "at_least bound n = (case bound of None \<Rightarrow> True | Some m \<Rightarrow> m \<le> n)"

definition at_most :: "nat option \<Rightarrow> nat \<Rightarrow> bool" where
  "at_most bound n = (case bound of None \<Rightarrow> True | Some m \<Rightarrow> n \<le> m)"

fun is_JStr :: "json \<Rightarrow> bool" where
  "is_JStr (JStr s) = True"
| "is_JStr v = False"

text \<open>
  Modelled from the spec: the validation of one field value, which the schema library
  performs and the repository only configures through the \<^verbatim>\<open>Field\<close> arguments. A value
  satisfies its field when it has the annotated type and its length (for a string) or
  its number of items (for a list) lies within the declared bounds.
\<close>

fun field_valid :: "annotation \<Rightarrow> Field \<Rightarrow> json \<Rightarrow> bool" where
  "field_valid Str f (JStr s) =
     (at_least (min_length f) (length s) \<and> at_most (max_length f) (length s))"
| "field_valid ListStr f (JArr xs) =
     (list_all is_JStr xs \<and> at_least (min_items f) (length xs) \<and> at_most (max_items f) (length xs))"
| "field_valid a f v = False"

text \<open>
  Modelled from the spec: parsing a produced JSON object against a schema. Every declared
  field is required and must satisfy its constraints; the instance holds the declared
  fields, in declaration order, and nothing else.
\<close>

fun validate_fields :: "(string \<times> annotation \<times> Field) list \<Rightarrow> json dict \<Rightarrow> json dict option" where
  "validate_fields [] obj = Some []"
| "validate_fields ((name, a, f) # rest) obj =
     (case map_of obj name of
        None \<Rightarrow> None
      | Some v \<Rightarrow>
          if field_valid a f v
          then (case validate_fields rest obj of
                  None \<Rightarrow> None
                | Some inst \<Rightarrow> Some ((name, v) # inst))
          else None)"

fun model_validate :: "response_model \<Rightarrow> json \<Rightarrow> json dict option" where
  "model_validate m (JObj obj) = validate_fields (model_fields m) obj"
| "model_validate m v = None"

text \<open>Attribute access on a validated instance, \<^verbatim>\<open>completion.title\<close>.\<close>

definition getattr :: "json dict \<Rightarrow> string \<Rightarrow> error + json" where
  "getattr inst name =
     (case map_of inst name of
        None \<Rightarrow> Inl (AttributeError (''object has no attribute '' @ name))
      | Some v \<Rightarrow> Inr v)"

section \<open>Settings (config/setting.py)\<close>

text \<open>
  The settings are read from the environment when the process starts; the model takes
  them as given. \<^verbatim>\<open>temperature\<close> is a Python float, which the code only passes on.
\<close>

record LLMProviderSettings =
  temperature :: real
  max_tokens :: "int option"
  max_retries :: int

record OpenAISettings = LLMProviderSettings +
  api_key :: string
  default_model :: string

record Settings =
  app_name :: string
  openai :: OpenAISettings

section \<open>The completion client (app.py, lines 16-43)\<close>

text \<open>The values that travel in \<^verbatim>\<open>**kwargs\<close> and in \<^verbatim>\<open>completion_params\<close>.\<close>

datatype pyval =
    PyNone
  | PyInt int
  | PyFloat real
  | PyStr string
  | PyType response_model
  | PyMessages "message list"

text \<open>\<^verbatim>\<open>d.get(key, default)\<close>.\<close>

definition dict_get :: "'v dict \<Rightarrow> string \<Rightarrow> 'v \<Rightarrow> 'v" where
  "dict_get d key dflt = (case map_of d key of None \<Rightarrow> dflt | Some v \<Rightarrow> v)"

definition completion_params ::
  "OpenAISettings \<Rightarrow> response_model \<Rightarrow> message list \<Rightarrow> pyval dict \<Rightarrow> pyval dict" where
  "completion_params s response_model messages kwargs =
     [(''model'', dict_get kwargs ''model'' (PyStr (default_model s))),
      (''temperature'', dict_get kwargs ''temperature'' (PyFloat (temperature s))),
      (''max_retries'', dict_get kwargs ''max_retries'' (PyInt (max_retries s))),
      (''max_tokens'', dict_get kwargs ''max_tokens''
         (case max_tokens s of None \<Rightarrow> PyNone | Some n \<Rightarrow> PyInt n)),
      (''response_model'', PyType response_model),
      (''messages'', PyMessages messages)]"

text \<open>
  \<open>client\<close> stands for \<^verbatim>\<open>self.client.chat.completions.create\<close>, called with the
  parameters as keyword arguments.
\<close>

record 'r LLMFactory =
  provider :: string
  settings :: OpenAISettings
  client :: "pyval dict \<Rightarrow> 'r"

definition create_completion ::
  "'r LLMFactory \<Rightarrow> response_model \<Rightarrow> message list \<Rightarrow> pyval dict \<Rightarrow> 'r" where
  "create_completion self response_model messages kwargs =
     client self (completion_params (settings self) response_model messages kwargs)"

subsection \<open>The remote model and the structured-output client\<close>

text \<open>
  What the process does not contain: the configuration, the remote model, and the
  library client that validates and retries.
  \<^item> \<open>remote key params i\<close> is the reply of the remote model to the \<open>i\<close>-th request
    (counted from 0) sent with API key \<open>key\<close> and parameters \<open>params\<close>;
  \<^item> \<open>requests_allowed r\<close> is the number of requests the client is willing to send when
    it is given \<open>r\<close> as \<^verbatim>\<open>max_retries\<close>;
  \<^item> \<open>exhausted_message\<close> is the text of the failure raised when they are used up;
  \<^item> \<open>str_json\<close> is \<^verbatim>\<open>str\<close> on JSON values other than strings;
  \<^item> \<open>inherited_attribute name\<close> says whether the settings object has an attribute
    \<open>name\<close> that comes from the settings base class rather than from the two declared
    fields.
\<close>

datatype reply = Returned json | ChannelError string

record environment =
  get_settings :: Settings
  remote :: "string \<Rightarrow> pyval dict \<Rightarrow> nat \<Rightarrow> reply"
  requests_allowed :: "pyval \<Rightarrow> nat"
  exhausted_message :: string
  str_json :: "json \<Rightarrow> string"
  inherited_attribute :: "string \<Rightarrow> bool"

text \<open>
  Modelled from the spec: the parse, validate and retry loop of the completion client
  (section 4.1), which the repository delegates to the structured-output library. Each
  reply is parsed against the schema; a valid instance is returned; an invalid reply
  leads to the next request while requests remain, and to \<open>GenerationFailure\<close> when
  none does; a failed remote call is a \<open>ProviderFailure\<close>.
\<close>

fun attempts :: "nat \<Rightarrow> string \<Rightarrow> (nat \<Rightarrow> reply) \<Rightarrow> response_model \<Rightarrow> nat \<Rightarrow> error + json dict" where
  "attempts 0 msg ask m i = Inl (GenerationFailure msg)"
| "attempts (Suc n) msg ask m i =
     (case ask i of
        ChannelError e \<Rightarrow> Inl (ProviderFailure e)
      | Returned raw \<Rightarrow>
          (case model_validate m raw of
             Some inst \<Rightarrow> Inr inst
           | None \<Rightarrow> attempts n msg ask m (Suc i)))"

text \<open>
  Modelled from the spec: \<^verbatim>\<open>instructor.from_openai(OpenAI(api_key=key))\<close>, as the function
  behind \<^verbatim>\<open>chat.completions.create\<close>.
\<close>

definition instructor_create :: "environment \<Rightarrow> string \<Rightarrow> pyval dict \<Rightarrow> error + json dict" where
  "instructor_create env key params =
     (case map_of params ''response_model'' of
        Some (PyType m) \<Rightarrow>
          (case map_of params ''max_retries'' of
             Some r \<Rightarrow>
               attempts (requests_allowed env r) (exhausted_message env) (remote env key params) m 0
           | None \<Rightarrow> Inl (TypeError ''missing argument max_retries''))
      | _ \<Rightarrow> Inl (TypeError ''missing argument response_model''))"

text \<open>
  \<^verbatim>\<open>LLMFactory(provider)\<close>: the settings of the provider are an attribute of the settings
  object, and the client comes from the table of initializers, which has the single entry
  \<^verbatim>\<open>openai\<close>. For every other name that is an attribute of the settings object
  (\<^verbatim>\<open>app_name\<close>, or an attribute of the settings base class) the lookup of the settings
  succeeds and the missing initializer raises \<^verbatim>\<open>ValueError\<close>; for a name that is no
  attribute the lookup itself raises \<^verbatim>\<open>AttributeError\<close>.
\<close>

definition LLMFactory_init :: "environment \<Rightarrow> string \<Rightarrow> error + (error + json dict) LLMFactory" where
  "LLMFactory_init env provider_name =
     (if provider_name = ''openai'' then
        Inr \<lparr>provider = provider_name,
             settings = openai (get_settings env),
             client = instructor_create env (api_key (openai (get_settings env)))\<rparr>
      else if provider_name = ''app_name'' \<or> inherited_attribute env provider_name then
        Inl (ValueError (''Unsupported LLM provider: '' @ provider_name))
      else
        Inl (AttributeError
          ([CHR 0x27] @ ''Settings'' @ [CHR 0x27] @ '' object has no attribute '' @
           [CHR 0x27] @ provider_name @ [CHR 0x27])))"

section \<open>The generators (app.py, lines 151-329)\<close>

text \<open>
  \<^verbatim>\<open>request_data.items()\<close> exists on a dictionary only; on any other JSON value the call
  raises an \<^verbatim>\<open>AttributeError\<close>.
\<close>

definition dict_items :: "json \<Rightarrow> error + json dict" where
  "dict_items request_data =
     (case request_data of
        JObj kvs \<Rightarrow> Inr kvs
      | _ \<Rightarrow> Inl (AttributeError
          ([CHR 0x27] @ type_name request_data @ [CHR 0x27] @
           '' object has no attribute '' @ [CHR 0x27] @ ''items'' @ [CHR 0x27])))"

definition PostGenerator :: "environment \<Rightarrow> json \<Rightarrow> error + json dict" where
  "PostGenerator env request_data =
     (case dict_items request_data of
        Inl e \<Rightarrow> Inl e
      | Inr kvs \<Rightarrow>
          (let sanitized_data = PostGenerator_sanitized_data kvs;
               messages = PostGenerator_messages (str_json env) sanitized_data
           in case LLMFactory_init env ''openai'' of
                Inl e \<Rightarrow> Inl e
              | Inr llm \<Rightarrow>
                  (case create_completion llm SocialMediaPost messages [] of
                     Inl e \<Rightarrow> Inl e
                   | Inr completion \<Rightarrow>
                       (case getattr completion ''title'' of
                          Inl e \<Rightarrow> Inl e
                        | Inr t \<Rightarrow>
                            (case getattr completion ''body'' of
                               Inl e \<Rightarrow> Inl e
                             | Inr b \<Rightarrow>
                                 (case getattr completion ''hashtags'' of
                                    Inl e \<Rightarrow> Inl e
                                  | Inr h \<Rightarrow>
                                      Inr [(''title'', t), (''body'', b), (''hashtags'', h)]))))))"

definition BlogPostGenerator :: "environment \<Rightarrow> json \<Rightarrow> error + json dict" where
  "BlogPostGenerator env request_data =
     (case dict_items request_data of
        Inl e \<Rightarrow> Inl e
      | Inr kvs \<Rightarrow>
          (let sanitized_data = BlogPostGenerator_sanitized_data kvs;
               messages = BlogPostGenerator_messages (str_json env) sanitized_data
           in case LLMFactory_init env ''openai'' of
                Inl e \<Rightarrow> Inl e
              | Inr llm \<Rightarrow>
                  (case create_completion llm BlogPost messages [] of
                     Inl e \<Rightarrow> Inl e
                   | Inr completion \<Rightarrow>
                       (case getattr completion ''title'' of
                          Inl e \<Rightarrow> Inl e
                        | Inr t \<Rightarrow>
                            (case getattr completion ''contentBody'' of
                               Inl e \<Rightarrow> Inl e
                             | Inr b \<Rightarrow>
                                 (case getattr completion ''hashtags'' of
                                    Inl e \<Rightarrow> Inl e
                                  | Inr h \<Rightarrow>
                                      Inr [(''title'', t), (''contentBody'', b), (''hashtags'', h)]))))))"

section \<open>The request handlers (app.py, lines 332-362)\<close>

record response =
  status :: nat
  body :: json

text \<open>
  \<^verbatim>\<open>field in request.json\<close>: key membership on a dictionary, element membership on a
  list, substring test on a string, and a \<^verbatim>\<open>TypeError\<close> on \<^verbatim>\<open>None\<close>, a boolean or a number.
\<close>

fun contains :: "json \<Rightarrow> string \<Rightarrow> error + bool" where
  "contains (JObj kvs) field = Inr (field \<in> set (map fst kvs))"
| "contains (JArr xs) field = Inr (JStr field \<in> set xs)"
| "contains (JStr s) field = Inr (sublist field s)"
| "contains v field =
     Inl (TypeError (''argument of type '' @ [CHR 0x27] @ type_name v @ [CHR 0x27] @ '' is not iterable''))"

text \<open>
  The validation loop of \<^verbatim>\<open>generate_blog\<close>: the first required field that is not in the
  body, if any.
\<close>

fun first_missing :: "string list \<Rightarrow> json \<Rightarrow> error + string option" where
  "first_missing [] request_json = Inr None"
| "first_missing (field # rest) request_json =
     (case contains request_json field of
        Inl e \<Rightarrow> Inl e
      | Inr True \<Rightarrow> first_missing rest request_json
      | Inr False \<Rightarrow> Inr (Some field))"

definition required_fields :: "string list" where
  "required_fields = [''2.AI Transcript Rough'', ''12.Topic Name'']"

text \<open>
  A handler returns its response together with the list of arguments with which it has
  called its generator. The body is taken as parsed JSON; logging and printing are left
  out.
\<close>

definition generate_blog :: "environment \<Rightarrow> json \<Rightarrow> response \<times> json list" where
  "generate_blog env request_json =
     (case first_missing required_fields request_json of
        Inl e \<Rightarrow>
          (\<lparr>status = 500, body = JObj [(''error'', JStr ''Internal server error'')]\<rparr>, [])
      | Inr (Some field) \<Rightarrow>
          (\<lparr>status = 400,
            body = JObj [(''error'', JStr (''Missing required field: '' @ field))]\<rparr>, [])
      | Inr None \<Rightarrow>
          (case BlogPostGenerator env request_json of
             Inl e \<Rightarrow>
               (\<lparr>status = 500, body = JObj [(''error'', JStr ''Internal server error'')]\<rparr>,
                [request_json])
           | Inr result \<Rightarrow> (\<lparr>status = 200, body = JObj result\<rparr>, [request_json])))"

definition generate_post :: "environment \<Rightarrow> json \<Rightarrow> response \<times> json list" where
  "generate_post env request_json =
     (case PostGenerator env request_json of
        Inl e \<Rightarrow>
          (\<lparr>status = 500, body = JObj [(''error'', JStr (str_error e))]\<rparr>, [request_json])
      | Inr result \<Rightarrow> (\<lparr>status = 200, body = JObj result\<rparr>, [request_json]))"

text \<open>
  A stub environment for concrete runs: the default settings of the source, a remote model
  that answers the \<open>i\<close>-th request with the \<open>i\<close>-th reply of a list, and a fixed number
  of allowed requests. The attributes of the settings base class are taken to be the
  names that begin with \<^verbatim>\<open>model_\<close>.
\<close>

definition stub_environment :: "reply list \<Rightarrow> nat \<Rightarrow> environment" where
  "stub_environment replies n =
     \<lparr>get_settings =
        \<lparr>app_name = ''GenAI Project Template'',
         openai = \<lparr>temperature = 0, max_tokens = None, max_retries = 5,
                   api_key = ''sk-test'', default_model = ''gpt-4o''\<rparr>\<rparr>,
      remote = (\<lambda>key params i.
        if i < length replies then replies ! i else ChannelError ''connection closed''),
      requests_allowed = (\<lambda>r. n),
      exhausted_message = ''retries exhausted'',
      str_json = (\<lambda>v. []),
      inherited_attribute = (\<lambda>name. take 6 name = ''model_'')\<rparr>"

section \<open>Properties of the string operations\<close>

lemma replace_from_single_char:
  "replace_from [c] [] s = filter (\<lambda>x. x \<noteq> c) s"
  by (induction s) auto

lemma str_replace_single_char:
  "str_replace s [c] [] = filter (\<lambda>x. x \<noteq> c) s"
  by (simp add: str_replace_def replace_from_single_char)

lemma PostGenerator_new_key_filter:
  "PostGenerator_new_key key = filter (\<lambda>x. x \<noteq> CHR 0x27 \<and> x \<noteq> CHR 0x22) key"
  by (simp add: PostGenerator_new_key_def str_replace_single_char conj_commute)

lemma BlogPostGenerator_new_key_filter:
  "BlogPostGenerator_new_key key =
     filter (\<lambda>x. x \<noteq> CHR 0x27 \<and> x \<noteq> CHR 0x22 \<and> x \<noteq> CHR 0x60) key"
  by (simp add: BlogPostGenerator_new_key_def str_replace_single_char conj_commute conj_left_commute)

section \<open>Properties of the sanitization loop\<close>



lemma keys_sanitize_items:
  "fst ` set (sanitize_items f items sd) = fst ` set sd \<union> f ` fst ` set items"
proof (induction items arbitrary: sd)
  case Nil
  then show ?case by simp
next
  case (Cons kv items)
  obtain k v where kv: "kv = (k, v)" by (cases kv)
  show ?case
    unfolding kv sanitize_items.simps Cons.IH dom_update by auto
qed


lemma sanitize_items_append:
  "sanitize_items f (xs @ ys) sd = sanitize_items f ys (sanitize_items f xs sd)"
  by (induction xs arbitrary: sd) auto





section \<open>Sanitization claims\<close>

text \<open>
  Claim C8. The quote (and, for the blog pipeline, backtick) stripping is idempotent:
  applying it to an already stripped string changes nothing, in both pipelines.
\<close>

theorem new_key_idempotent:
  "PostGenerator_new_key (PostGenerator_new_key x) = PostGenerator_new_key x \<and>
   BlogPostGenerator_new_key (BlogPostGenerator_new_key x) = BlogPostGenerator_new_key x"
  by (simp add: PostGenerator_new_key_filter BlogPostGenerator_new_key_filter)

theorem new_key_idempotent_witness:
  "PostGenerator_new_key (PostGenerator_new_key [CHR ''a'', CHR 0x27, CHR 0x22, CHR 0x60]) =
     [CHR ''a'', CHR 0x60] \<and>
   BlogPostGenerator_new_key (BlogPostGenerator_new_key [CHR ''a'', CHR 0x27, CHR 0x22, CHR 0x60]) =
     [CHR ''a'']"
proof -
  have once:
    "PostGenerator_new_key [CHR ''a'', CHR 0x27, CHR 0x22, CHR 0x60] = [CHR ''a'', CHR 0x60]"
    "BlogPostGenerator_new_key [CHR ''a'', CHR 0x27, CHR 0x22, CHR 0x60] = [CHR ''a'']"
    by (simp_all add: PostGenerator_new_key_def BlogPostGenerator_new_key_def str_replace_def)
  show ?thesis
    using new_key_idempotent [of "[CHR ''a'', CHR 0x27, CHR 0x22, CHR 0x60]"] once by simp
qed



section \<open>Properties of prompt construction\<close>

lemma fstring_cong:
  assumes "\<And>k. Get k \<in> set segs \<Longrightarrow> get_formatted f sd k = get_formatted f sd' k"
  shows "fstring f sd segs = fstring f sd' segs"
proof -
  have "eval_segment f sd seg = eval_segment f sd' seg" if "seg \<in> set segs" for seg
  proof (cases seg)
    case (Lit s)
    then show ?thesis by simp
  next
    case (Get k)
    with that assms [of k] show ?thesis by simp
  qed
  then have "map (eval_segment f sd) segs = map (eval_segment f sd') segs"
    by simp
  then show ?thesis
    by (simp only: fstring_def)
qed

lemma get_in_fstring:
  "Get k \<in> set segs \<Longrightarrow> set (get_formatted f sd k) \<subseteq> set (fstring f sd segs)"
  unfolding fstring_def by force

lemma get_formatted_absent:
  assumes "k \<notin> fst ` set sd"
  shows "get_formatted f sd k = []"
proof -
  from assms have "map_of sd k = None"
    by (simp add: map_of_eq_None_iff)
  then show ?thesis
    by (simp add: get_formatted_def)
qed

lemma get_formatted_empty_entry:
  assumes "k \<notin> fst ` set sd"
  shows "get_formatted f (AList.update k (JStr []) sd) k' = get_formatted f sd k'"
proof -
  from assms have "map_of sd k = None"
    by (simp add: map_of_eq_None_iff)
  then show ?thesis
    by (simp add: get_formatted_def update_conv')
qed

lemmas content_defs =
  PostGenerator_system_content_def PostGenerator_user_content_def
  BlogPostGenerator_system_content_def BlogPostGenerator_user_content_def

lemma messages_empty_entry:
  assumes "k \<notin> new_key ` fst ` set request_data" and "new_key k = k"
  shows "fstring f (sanitize_items new_key (request_data @ [(k, JStr [])]) []) segs =
         fstring f (sanitize_items new_key request_data []) segs"
proof -
  have "k \<notin> fst ` set (sanitize_items new_key request_data [])"
    using assms(1) by (simp add: keys_sanitize_items)
  then show ?thesis
    by (intro fstring_cong)
       (simp add: sanitize_items_append assms(2) get_formatted_empty_entry)
qed


section \<open>Prompt construction claims\<close>





text \<open>
  Claim C3, as amended. A key \<open>k\<close> that no request key becomes after the stripping renders
  as the empty string, and the messages are then the same as if the request had carried
  \<open>k\<close> with an empty string value. Message construction has no failing branch: for every
  request it yields the system message followed by the user message. Both pipelines.
\<close>

theorem absent_keys_render_empty:
  "(k \<notin> PostGenerator_new_key ` dict_keys request_data \<longrightarrow>
      get_formatted str_other (PostGenerator_sanitized_data request_data) k = [] \<and>
      (PostGenerator_new_key k = k \<longrightarrow>
         PostGenerator_messages str_other
           (PostGenerator_sanitized_data (request_data @ [(k, JStr [])])) =
         PostGenerator_messages str_other (PostGenerator_sanitized_data request_data))) \<and>
   (k \<notin> BlogPostGenerator_new_key ` dict_keys request_data \<longrightarrow>
      get_formatted str_other (BlogPostGenerator_sanitized_data request_data) k = [] \<and>
      (BlogPostGenerator_new_key k = k \<longrightarrow>
         BlogPostGenerator_messages str_other
           (BlogPostGenerator_sanitized_data (request_data @ [(k, JStr [])])) =
         BlogPostGenerator_messages str_other (BlogPostGenerator_sanitized_data request_data))) \<and>
   map role (PostGenerator_messages str_other (PostGenerator_sanitized_data request_data)) =
     [''system'', ''user''] \<and>
   map role (BlogPostGenerator_messages str_other (BlogPostGenerator_sanitized_data request_data)) =
     [''system'', ''user'']"
proof -
  have post_slot: "get_formatted str_other (PostGenerator_sanitized_data request_data) k = []"
    if "k \<notin> PostGenerator_new_key ` dict_keys request_data"
    using that unfolding PostGenerator_sanitized_data_def dict_keys_def
    by (intro get_formatted_absent) (simp add: keys_sanitize_items)
  have blog_slot: "get_formatted str_other (BlogPostGenerator_sanitized_data request_data) k = []"
    if "k \<notin> BlogPostGenerator_new_key ` dict_keys request_data"
    using that unfolding BlogPostGenerator_sanitized_data_def dict_keys_def
    by (intro get_formatted_absent) (simp add: keys_sanitize_items)
  have post_msgs: "PostGenerator_messages str_other
        (PostGenerator_sanitized_data (request_data @ [(k, JStr [])])) =
      PostGenerator_messages str_other (PostGenerator_sanitized_data request_data)"
    if "k \<notin> PostGenerator_new_key ` dict_keys request_data" "PostGenerator_new_key k = k"
    unfolding PostGenerator_messages_def content_defs PostGenerator_sanitized_data_def
    by (simp only: messages_empty_entry [OF that [unfolded dict_keys_def]])
  have blog_msgs: "BlogPostGenerator_messages str_other
        (BlogPostGenerator_sanitized_data (request_data @ [(k, JStr [])])) =
      BlogPostGenerator_messages str_other (BlogPostGenerator_sanitized_data request_data)"
    if "k \<notin> BlogPostGenerator_new_key ` dict_keys request_data" "BlogPostGenerator_new_key k = k"
    unfolding BlogPostGenerator_messages_def content_defs BlogPostGenerator_sanitized_data_def
    by (simp only: messages_empty_entry [OF that [unfolded dict_keys_def]])
  have roles:
    "map role (PostGenerator_messages str_other (PostGenerator_sanitized_data request_data)) =
       [''system'', ''user'']"
    "map role (BlogPostGenerator_messages str_other (BlogPostGenerator_sanitized_data request_data)) =
       [''system'', ''user'']"
    by (simp_all add: PostGenerator_messages_def BlogPostGenerator_messages_def)
  show ?thesis
    using post_slot blog_slot post_msgs blog_msgs roles by blast
qed

theorem absent_keys_render_empty_witness:
  "get_formatted (\<lambda>v. []) (PostGenerator_sanitized_data [(''12.Topic Name'', JStr ''Growth'')]) ''6.Name'' = [] \<and>
   PostGenerator_messages (\<lambda>v. [])
     (PostGenerator_sanitized_data [(''12.Topic Name'', JStr ''Growth''), (''6.Name'', JStr [])]) =
   PostGenerator_messages (\<lambda>v. []) (PostGenerator_sanitized_data [(''12.Topic Name'', JStr ''Growth'')]) \<and>
   get_formatted (\<lambda>v. []) (BlogPostGenerator_sanitized_data [(''12.Topic Name'', JStr ''Growth'')]) ''6.Name'' = [] \<and>
   BlogPostGenerator_messages (\<lambda>v. [])
     (BlogPostGenerator_sanitized_data [(''12.Topic Name'', JStr ''Growth''), (''6.Name'', JStr [])]) =
   BlogPostGenerator_messages (\<lambda>v. []) (BlogPostGenerator_sanitized_data [(''12.Topic Name'', JStr ''Growth'')])"
proof -
  have keys:
    "PostGenerator_new_key ''6.Name'' = ''6.Name''"
    "PostGenerator_new_key ''12.Topic Name'' = ''12.Topic Name''"
    "BlogPostGenerator_new_key ''6.Name'' = ''6.Name''"
    "BlogPostGenerator_new_key ''12.Topic Name'' = ''12.Topic Name''"
    by (simp_all add: PostGenerator_new_key_filter BlogPostGenerator_new_key_filter)
  show ?thesis
    using absent_keys_render_empty [of "''6.Name''" "[(''12.Topic Name'', JStr ''Growth'')]" "\<lambda>v. []"]
    by (simp add: keys dict_keys_def)
qed

text \<open>
  The claim as stated speaks of keys absent from the input mapping. The request below has
  no key \<^verbatim>\<open>6.Name\<close> (its only key is \<^verbatim>\<open>'6.Name'\<close>, quotes included), yet the company name
  slot renders \<^verbatim>\<open>Acme\<close> and the messages differ from those of the empty request.
\<close>

theorem absent_input_key_counterexample:
  "''6.Name'' \<notin> dict_keys [([CHR 0x27] @ ''6.Name'' @ [CHR 0x27], JStr ''Acme'')] \<and>
   get_formatted (\<lambda>v. [])
     (PostGenerator_sanitized_data [([CHR 0x27] @ ''6.Name'' @ [CHR 0x27], JStr ''Acme'')]) ''6.Name'' = ''Acme'' \<and>
   PostGenerator_messages (\<lambda>v. [])
     (PostGenerator_sanitized_data [([CHR 0x27] @ ''6.Name'' @ [CHR 0x27], JStr ''Acme'')]) \<noteq>
   PostGenerator_messages (\<lambda>v. []) (PostGenerator_sanitized_data []) \<and>
   get_formatted (\<lambda>v. [])
     (BlogPostGenerator_sanitized_data [([CHR 0x27] @ ''6.Name'' @ [CHR 0x27], JStr ''Acme'')]) ''6.Name'' = ''Acme'' \<and>
   BlogPostGenerator_messages (\<lambda>v. [])
     (BlogPostGenerator_sanitized_data [([CHR 0x27] @ ''6.Name'' @ [CHR 0x27], JStr ''Acme'')]) \<noteq>
   BlogPostGenerator_messages (\<lambda>v. []) (BlogPostGenerator_sanitized_data [])"
proof -
  have post: "PostGenerator_sanitized_data [([CHR 0x27] @ ''6.Name'' @ [CHR 0x27], JStr ''Acme'')] =
      [(''6.Name'', JStr ''Acme'')]"
    by (simp add: PostGenerator_sanitized_data_def PostGenerator_new_key_filter)
  have blog: "BlogPostGenerator_sanitized_data [([CHR 0x27] @ ''6.Name'' @ [CHR 0x27], JStr ''Acme'')] =
      [(''6.Name'', JStr ''Acme'')]"
    by (simp add: BlogPostGenerator_sanitized_data_def BlogPostGenerator_new_key_filter)
  have empty: "PostGenerator_sanitized_data [] = ([] :: json dict)"
    "BlogPostGenerator_sanitized_data [] = ([] :: json dict)"
    by (simp_all add: PostGenerator_sanitized_data_def BlogPostGenerator_sanitized_data_def)
  have absent: "''6.Name'' \<notin> dict_keys [([CHR 0x27] @ ''6.Name'' @ [CHR 0x27], JStr ''Acme'')]"
    by (simp add: dict_keys_def)
  have slots:
    "get_formatted (\<lambda>v. []) [(''6.Name'', JStr ''Acme'')] ''6.Name'' = ''Acme''"
    by (simp add: get_formatted_def)
  have post_ne: "PostGenerator_messages (\<lambda>v. []) [(''6.Name'', JStr ''Acme'')] \<noteq>
      PostGenerator_messages (\<lambda>v. []) []"
    by (simp add: PostGenerator_messages_def PostGenerator_user_content_def
        PostGenerator_user_content_fstring_def PostGenerator_system_content_def
        PostGenerator_system_content_fstring_def fstring_def get_formatted_def)
  have blog_ne: "BlogPostGenerator_messages (\<lambda>v. []) [(''6.Name'', JStr ''Acme'')] \<noteq>
      BlogPostGenerator_messages (\<lambda>v. []) []"
    by (simp add: BlogPostGenerator_messages_def BlogPostGenerator_user_content_def
        BlogPostGenerator_user_content_fstring_def BlogPostGenerator_system_content_def
        BlogPostGenerator_system_content_fstring_def fstring_def get_formatted_def)
  show ?thesis
    unfolding post blog empty using absent slots post_ne blog_ne by blast
qed

section \<open>Properties of validation and of the client\<close>

lemma field_valid_Str:
  "field_valid Str f v \<longleftrightarrow>
     (\<exists>s. v = JStr s \<and> at_least (min_length f) (length s) \<and> at_most (max_length f) (length s))"
  by (cases v) auto

lemma field_valid_ListStr:
  "field_valid ListStr f v \<longleftrightarrow>
     (\<exists>xs. v = JArr xs \<and> list_all is_JStr xs \<and> at_least (min_items f) (length xs) \<and>
           at_most (max_items f) (length xs))"
  by (cases v) auto

lemma field_valid_description:
  "field_valid a (f\<lparr>description := d\<rparr>) v = field_valid a f v"
  by (cases a; cases v) simp_all

lemma validate_fields_description:
  "validate_fields (map (\<lambda>(name, a, f). (name, a, f\<lparr>description := d name\<rparr>)) fs) obj =
   validate_fields fs obj"
proof (induction fs)
  case Nil
  then show ?case by simp
next
  case (Cons x fs)
  obtain name a f where x: "x = (name, a, f)" by (cases x)
  show ?case
    by (simp add: x Cons.IH field_valid_description cong: option.case_cong if_cong)
qed

lemma validate_SocialMediaPost:
  "validate_fields (model_fields SocialMediaPost) obj = Some inst \<longleftrightarrow>
     (\<exists>t b hs.
        map_of obj ''title'' = Some (JStr t) \<and> map_of obj ''body'' = Some (JStr b) \<and>
        map_of obj ''hashtags'' = Some (JArr hs) \<and>
        length t \<le> 70 \<and> 500 \<le> length b \<and> length b \<le> 2100 \<and>
        list_all is_JStr hs \<and> length hs = 3 \<and>
        inst = [(''title'', JStr t), (''body'', JStr b), (''hashtags'', JArr hs)])"
  by (auto simp: field_valid_Str field_valid_ListStr at_least_def at_most_def
      split: option.splits if_splits)

lemma validate_BlogPost:
  "validate_fields (model_fields BlogPost) obj = Some inst \<longleftrightarrow>
     (\<exists>t b hs.
        map_of obj ''title'' = Some (JStr t) \<and> map_of obj ''contentBody'' = Some (JStr b) \<and>
        map_of obj ''hashtags'' = Some (JArr hs) \<and>
        length t \<le> 120 \<and> 2800 \<le> length b \<and> length b \<le> 4000 \<and>
        list_all is_JStr hs \<and> 3 \<le> length hs \<and> length hs \<le> 5 \<and>
        inst = [(''title'', JStr t), (''contentBody'', JStr b), (''hashtags'', JArr hs)])"
  by (auto simp: field_valid_Str field_valid_ListStr at_least_def at_most_def
      split: option.splits if_splits)

lemma attempts_cases:
  "(\<exists>inst j raw. attempts n msg ask m i = Inr inst \<and> ask j = Returned raw \<and>
       model_validate m raw = Some inst) \<or>
   attempts n msg ask m i = Inl (GenerationFailure msg) \<or>
   (\<exists>e. attempts n msg ask m i = Inl (ProviderFailure e))"
proof (induction n arbitrary: i)
  case 0
  then show ?case by simp
next
  case (Suc n)
  show ?case
  proof (cases "ask i")
    case (ChannelError e)
    then show ?thesis by simp
  next
    case (Returned raw)
    show ?thesis
    proof (cases "model_validate m raw")
      case None
      with Returned Suc.IH [of "Suc i"] show ?thesis by simp
    next
      case (Some inst)
      with Returned show ?thesis by auto
    qed
  qed
qed

text \<open>
  The budget of the loop: when the first \<open>N\<close> replies are invalid and the next one is
  valid, the loop returns the valid instance exactly when it may send more than \<open>N\<close>
  requests, and fails with the exhaustion failure otherwise.
\<close>

lemma attempts_after_invalid_replies:
  assumes "\<And>j. j < N \<Longrightarrow> \<exists>raw. ask (i + j) = Returned raw \<and> model_validate m raw = None"
    and "ask (i + N) = Returned good" and "model_validate m good = Some inst"
  shows "attempts n msg ask m i = (if N < n then Inr inst else Inl (GenerationFailure msg))"
  using assms
proof (induction n arbitrary: i N)
  case 0
  then show ?case by simp
next
  case (Suc n)
  show ?case
  proof (cases N)
    case 0
    with Suc.prems(2,3) show ?thesis by simp
  next
    case (Suc N')
    from Suc.prems(1) [of 0] Suc obtain raw where
      first: "ask i = Returned raw" "model_validate m raw = None"
      by auto
    have "attempts n msg ask m (Suc i) =
        (if N' < n then Inr inst else Inl (GenerationFailure msg))"
    proof (rule Suc.IH)
      show "\<exists>raw. ask (Suc i + j) = Returned raw \<and> model_validate m raw = None" if "j < N'" for j
        using Suc.prems(1) [of "Suc j"] that Suc by simp
      show "ask (Suc i + N') = Returned good"
        using Suc.prems(2) Suc by simp
      show "model_validate m good = Some inst"
        by (rule Suc.prems(3))
    qed
    with first Suc show ?thesis by simp
  qed
qed

lemma PostGenerator_JObj:
  "PostGenerator env (JObj kvs) =
     (case attempts (requests_allowed env (PyInt (max_retries (openai (get_settings env)))))
             (exhausted_message env)
             (remote env (api_key (openai (get_settings env)))
                (completion_params (openai (get_settings env)) SocialMediaPost
                   (PostGenerator_messages (str_json env) (PostGenerator_sanitized_data kvs)) []))
             SocialMediaPost 0 of
        Inl e \<Rightarrow> Inl e
      | Inr completion \<Rightarrow>
          (case getattr completion ''title'' of
             Inl e \<Rightarrow> Inl e
           | Inr t \<Rightarrow>
               (case getattr completion ''body'' of
                  Inl e \<Rightarrow> Inl e
                | Inr b \<Rightarrow>
                    (case getattr completion ''hashtags'' of
                       Inl e \<Rightarrow> Inl e
                     | Inr h \<Rightarrow> Inr [(''title'', t), (''body'', b), (''hashtags'', h)]))))"
  by (simp add: PostGenerator_def dict_items_def LLMFactory_init_def create_completion_def
      instructor_create_def completion_params_def dict_get_def Let_def)

lemma first_missing_required:
  "first_missing required_fields (JObj kvs) =
     Inr (if ''2.AI Transcript Rough'' \<notin> dict_keys kvs then Some ''2.AI Transcript Rough''
          else if ''12.Topic Name'' \<notin> dict_keys kvs then Some ''12.Topic Name''
          else None)"
  by (simp add: required_fields_def dict_keys_def)

section \<open>Claims about the completion client and the schemas\<close>

text \<open>
  Claim C5. \<^verbatim>\<open>create_completion\<close> calls the client with exactly six parameters. Each of
  model, temperature, max_retries and max_tokens is the keyword argument of that name
  when the caller gave one, and the value of the provider settings (\<open>default_model\<close>,
  \<open>temperature\<close>, \<open>max_retries\<close>, \<open>max_tokens\<close>) otherwise; the response model and the
  messages are passed on as given.
\<close>

theorem create_completion_parameters:
  "create_completion self response_model messages kwargs =
     client self (completion_params (settings self) response_model messages kwargs) \<and>
   map fst (completion_params s response_model messages kwargs) =
     [''model'', ''temperature'', ''max_retries'', ''max_tokens'', ''response_model'', ''messages''] \<and>
   map_of (completion_params s response_model messages kwargs) ''model'' =
     Some (case map_of kwargs ''model'' of Some v \<Rightarrow> v | None \<Rightarrow> PyStr (default_model s)) \<and>
   map_of (completion_params s response_model messages kwargs) ''temperature'' =
     Some (case map_of kwargs ''temperature'' of Some v \<Rightarrow> v | None \<Rightarrow> PyFloat (temperature s)) \<and>
   map_of (completion_params s response_model messages kwargs) ''max_retries'' =
     Some (case map_of kwargs ''max_retries'' of Some v \<Rightarrow> v | None \<Rightarrow> PyInt (max_retries s)) \<and>
   map_of (completion_params s response_model messages kwargs) ''max_tokens'' =
     Some (case map_of kwargs ''max_tokens'' of
             Some v \<Rightarrow> v
           | None \<Rightarrow> (case max_tokens s of None \<Rightarrow> PyNone | Some n \<Rightarrow> PyInt n)) \<and>
   map_of (completion_params s response_model messages kwargs) ''response_model'' =
     Some (PyType response_model) \<and>
   map_of (completion_params s response_model messages kwargs) ''messages'' =
     Some (PyMessages messages)"
  by (simp add: create_completion_def completion_params_def dict_get_def split: option.splits)

theorem create_completion_parameters_witness:
  "create_completion
     \<lparr>provider = ''openai'',
      settings = \<lparr>temperature = 0, max_tokens = None, max_retries = 5,
                  api_key = ''sk-test'', default_model = ''gpt-4o''\<rparr>,
      client = (\<lambda>params. params)\<rparr>
     BlogPost [\<lparr>role = ''user'', content = ''hi''\<rparr>] [(''max_retries'', PyInt 2), (''seed'', PyInt 7)] =
   [(''model'', PyStr ''gpt-4o''), (''temperature'', PyFloat 0), (''max_retries'', PyInt 2),
    (''max_tokens'', PyNone), (''response_model'', PyType BlogPost),
    (''messages'', PyMessages [\<lparr>role = ''user'', content = ''hi''\<rparr>])]"
  using create_completion_parameters [of
      "\<lparr>provider = ''openai'',
        settings = \<lparr>temperature = 0, max_tokens = None, max_retries = 5,
                    api_key = ''sk-test'', default_model = ''gpt-4o''\<rparr>,
        client = (\<lambda>params. params)\<rparr>"
      BlogPost "[\<lparr>role = ''user'', content = ''hi''\<rparr>]"
      "[(''max_retries'', PyInt 2), (''seed'', PyInt 7)]"]
  by (simp add: completion_params_def dict_get_def)

text \<open>
  Claim C9, as amended. Validation against either schema checks that the three fields are
  present with their types, the length bounds of the strings and the number of hashtags,
  and nothing more: replacing every description by any other text leaves the outcome of
  validation unchanged. The structure asked for in the descriptions is not checked.
\<close>

theorem schema_validation_checks_bounds:
  "(model_validate SocialMediaPost (JObj obj) = Some inst \<longleftrightarrow>
      (\<exists>t b hs.
         map_of obj ''title'' = Some (JStr t) \<and> map_of obj ''body'' = Some (JStr b) \<and>
         map_of obj ''hashtags'' = Some (JArr hs) \<and>
         length t \<le> 70 \<and> 500 \<le> length b \<and> length b \<le> 2100 \<and>
         list_all is_JStr hs \<and> length hs = 3 \<and>
         inst = [(''title'', JStr t), (''body'', JStr b), (''hashtags'', JArr hs)])) \<and>
   (model_validate BlogPost (JObj obj) = Some inst \<longleftrightarrow>
      (\<exists>t b hs.
         map_of obj ''title'' = Some (JStr t) \<and> map_of obj ''contentBody'' = Some (JStr b) \<and>
         map_of obj ''hashtags'' = Some (JArr hs) \<and>
         length t \<le> 120 \<and> 2800 \<le> length b \<and> length b \<le> 4000 \<and>
         list_all is_JStr hs \<and> 3 \<le> length hs \<and> length hs \<le> 5 \<and>
         inst = [(''title'', JStr t), (''contentBody'', JStr b), (''hashtags'', JArr hs)])) \<and>
   validate_fields (map (\<lambda>(name, a, f). (name, a, f\<lparr>description := d name\<rparr>)) (model_fields m)) obj =
     validate_fields (model_fields m) obj"
  unfolding model_validate.simps validate_SocialMediaPost validate_BlogPost
    validate_fields_description
  by simp

theorem schema_validation_checks_bounds_witness:
  "model_validate SocialMediaPost
     (JObj [(''title'', JStr ''Growth''), (''body'', JStr (replicate 500 CHR ''a'')),
            (''hashtags'', JArr [JStr ''#a'', JStr ''#b'', JStr ''#c''])]) =
   Some [(''title'', JStr ''Growth''), (''body'', JStr (replicate 500 CHR ''a'')),
         (''hashtags'', JArr [JStr ''#a'', JStr ''#b'', JStr ''#c''])] \<and>
   model_validate BlogPost
     (JObj [(''title'', JStr ''Growth''), (''contentBody'', JStr (replicate 2800 CHR ''a'')),
            (''hashtags'', JArr [JStr ''#a'', JStr ''#b'', JStr ''#c'', JStr ''#d''])]) =
   Some [(''title'', JStr ''Growth''), (''contentBody'', JStr (replicate 2800 CHR ''a'')),
         (''hashtags'', JArr [JStr ''#a'', JStr ''#b'', JStr ''#c'', JStr ''#d''])]"
  using
    schema_validation_checks_bounds [of
      "[(''title'', JStr ''Growth''), (''body'', JStr (replicate 500 CHR ''a'')),
        (''hashtags'', JArr [JStr ''#a'', JStr ''#b'', JStr ''#c''])]"
      "[(''title'', JStr ''Growth''), (''body'', JStr (replicate 500 CHR ''a'')),
        (''hashtags'', JArr [JStr ''#a'', JStr ''#b'', JStr ''#c''])]"]
    schema_validation_checks_bounds [of
      "[(''title'', JStr ''Growth''), (''contentBody'', JStr (replicate 2800 CHR ''a'')),
        (''hashtags'', JArr [JStr ''#a'', JStr ''#b'', JStr ''#c'', JStr ''#d''])]"
      "[(''title'', JStr ''Growth''), (''contentBody'', JStr (replicate 2800 CHR ''a'')),
        (''hashtags'', JArr [JStr ''#a'', JStr ''#b'', JStr ''#c'', JStr ''#d''])]"]
  by simp

text \<open>
  A social post whose body is a single line of 500 letters validates, though it has no
  line break to separate hook, paragraphs and conclusion; a blog post whose content is
  2800 letters validates, though it has no heading marker and no frontmatter field.
\<close>

theorem structure_not_validated_counterexample:
  "model_validate SocialMediaPost
     (JObj [(''title'', JStr ''Growth''), (''body'', JStr (replicate 500 CHR ''a'')),
            (''hashtags'', JArr [JStr ''#a'', JStr ''#b'', JStr ''#c''])]) =
   Some [(''title'', JStr ''Growth''), (''body'', JStr (replicate 500 CHR ''a'')),
         (''hashtags'', JArr [JStr ''#a'', JStr ''#b'', JStr ''#c''])] \<and>
   CHR ''\<newline>'' \<notin> set (replicate 500 CHR ''a'') \<and>
   model_validate BlogPost
     (JObj [(''title'', JStr ''Growth''), (''contentBody'', JStr (replicate 2800 CHR ''a'')),
            (''hashtags'', JArr [JStr ''#a'', JStr ''#b'', JStr ''#c''])]) =
   Some [(''title'', JStr ''Growth''), (''contentBody'', JStr (replicate 2800 CHR ''a'')),
         (''hashtags'', JArr [JStr ''#a'', JStr ''#b'', JStr ''#c''])] \<and>
   CHR ''#'' \<notin> set (replicate 2800 CHR ''a'') \<and>
   CHR '':'' \<notin> set (replicate 2800 CHR ''a'')"
  by (simp add: at_least_def at_most_def)

text \<open>
  Claim C1, as amended. For every request object, the social generator ends in one of
  three ways: it returns title, body and hashtags with the title at most 70 characters,
  the body between 500 and 2100 characters and exactly 3 hashtags, all strings; or it
  fails because the requests were used up; or it fails because the remote call failed.
  No partly valid result is returned.
\<close>

theorem PostGenerator_outcomes:
  "(\<exists>t b hs.
      PostGenerator env (JObj kvs) =
        Inr [(''title'', JStr t), (''body'', JStr b), (''hashtags'', JArr hs)] \<and>
      length t \<le> 70 \<and> 500 \<le> length b \<and> length b \<le> 2100 \<and>
      list_all is_JStr hs \<and> length hs = 3) \<or>
   PostGenerator env (JObj kvs) = Inl (GenerationFailure (exhausted_message env)) \<or>
   (\<exists>e. PostGenerator env (JObj kvs) = Inl (ProviderFailure e))"
proof -
  let ?run = "attempts (requests_allowed env (PyInt (max_retries (openai (get_settings env)))))
      (exhausted_message env)
      (remote env (api_key (openai (get_settings env)))
         (completion_params (openai (get_settings env)) SocialMediaPost
            (PostGenerator_messages (str_json env) (PostGenerator_sanitized_data kvs)) []))
      SocialMediaPost 0"
  from attempts_cases [of _ _ _ SocialMediaPost]
  consider (ok) inst raw where "?run = Inr inst" "model_validate SocialMediaPost raw = Some inst"
    | (exhausted) "?run = Inl (GenerationFailure (exhausted_message env))"
    | (channel) e where "?run = Inl (ProviderFailure e)"
    by blast
  then show ?thesis
  proof cases
    case ok
    from ok(2) obtain obj where "raw = JObj obj"
      by (cases raw) simp_all
    with ok(2) have "validate_fields (model_fields SocialMediaPost) obj = Some inst"
      by (simp only: model_validate.simps)
    then obtain t b hs where
      inst: "inst = [(''title'', JStr t), (''body'', JStr b), (''hashtags'', JArr hs)]"
      and bounds: "length t \<le> 70" "500 \<le> length b" "length b \<le> 2100"
        "list_all is_JStr hs" "length hs = 3"
      unfolding validate_SocialMediaPost by blast
    have "PostGenerator env (JObj kvs) =
        Inr [(''title'', JStr t), (''body'', JStr b), (''hashtags'', JArr hs)]"
      unfolding PostGenerator_JObj ok(1) by (simp add: inst getattr_def)
    with bounds show ?thesis by blast
  next
    case exhausted
    then show ?thesis
      unfolding PostGenerator_JObj by simp
  next
    case channel
    then show ?thesis
      unfolding PostGenerator_JObj by simp
  qed
qed

theorem PostGenerator_outcomes_witness:
  "PostGenerator
     (stub_environment
        [Returned (JObj [(''title'', JStr ''Growth'')]),
         Returned (JObj [(''title'', JStr ''Growth''), (''body'', JStr (replicate 500 CHR ''a'')),
                         (''hashtags'', JArr [JStr ''#a'', JStr ''#b'', JStr ''#c''])])] 2)
     (JObj [(''2.AI Transcript Rough'', JStr ''We discussed Q3 growth.''),
            (''12.Topic Name'', JStr ''Growth'')]) =
   Inr [(''title'', JStr ''Growth''), (''body'', JStr (replicate 500 CHR ''a'')),
        (''hashtags'', JArr [JStr ''#a'', JStr ''#b'', JStr ''#c''])] \<and>
   PostGenerator
     (stub_environment [Returned (JObj [(''title'', JStr ''Growth'')])] 1)
     (JObj [(''2.AI Transcript Rough'', JStr ''We discussed Q3 growth.''),
            (''12.Topic Name'', JStr ''Growth'')]) =
   Inl (GenerationFailure ''retries exhausted'')"
  using
    PostGenerator_outcomes [of
      "stub_environment
        [Returned (JObj [(''title'', JStr ''Growth'')]),
         Returned (JObj [(''title'', JStr ''Growth''), (''body'', JStr (replicate 500 CHR ''a'')),
                         (''hashtags'', JArr [JStr ''#a'', JStr ''#b'', JStr ''#c''])])] 2"
      "[(''2.AI Transcript Rough'', JStr ''We discussed Q3 growth.''),
        (''12.Topic Name'', JStr ''Growth'')]"]
  by (simp add: PostGenerator_JObj stub_environment_def eval_nat_numeral at_least_def at_most_def
      getattr_def)

text \<open>
  The third outcome is not in the claim as stated: when the remote call fails, the
  generator fails with a provider failure, which is not the exhaustion of retries.
\<close>

theorem provider_failure_counterexample:
  "PostGenerator (stub_environment [ChannelError ''rate limit exceeded''] 5)
     (JObj [(''2.AI Transcript Rough'', JStr ''We discussed Q3 growth.''),
            (''12.Topic Name'', JStr ''Growth'')]) =
   Inl (ProviderFailure ''rate limit exceeded'')"
  by (simp add: PostGenerator_JObj stub_environment_def eval_nat_numeral)

section \<open>Claims about the request handlers\<close>

text \<open>
  Claim C4, as amended. On \<^verbatim>\<open>/generate_blog\<close>, a JSON object without the key
  \<^verbatim>\<open>2.AI Transcript Rough\<close> is answered with status 400 and the error naming that field;
  one with it but without \<^verbatim>\<open>12.Topic Name\<close> with status 400 naming the topic; in both
  cases the generator is not called. With both keys present the generator is called once,
  on the body, and its outcome decides the response.
\<close>

theorem generate_blog_validation:
  "(''2.AI Transcript Rough'' \<notin> dict_keys kvs \<longrightarrow>
      generate_blog env (JObj kvs) =
        (\<lparr>status = 400,
          body = JObj [(''error'', JStr ''Missing required field: 2.AI Transcript Rough'')]\<rparr>, [])) \<and>
   (''2.AI Transcript Rough'' \<in> dict_keys kvs \<and> ''12.Topic Name'' \<notin> dict_keys kvs \<longrightarrow>
      generate_blog env (JObj kvs) =
        (\<lparr>status = 400,
          body = JObj [(''error'', JStr ''Missing required field: 12.Topic Name'')]\<rparr>, [])) \<and>
   (''2.AI Transcript Rough'' \<in> dict_keys kvs \<and> ''12.Topic Name'' \<in> dict_keys kvs \<longrightarrow>
      snd (generate_blog env (JObj kvs)) = [JObj kvs] \<and>
      fst (generate_blog env (JObj kvs)) =
        (case BlogPostGenerator env (JObj kvs) of
           Inl e \<Rightarrow> \<lparr>status = 500, body = JObj [(''error'', JStr ''Internal server error'')]\<rparr>
         | Inr result \<Rightarrow> \<lparr>status = 200, body = JObj result\<rparr>))"
  by (simp add: generate_blog_def first_missing_required split: sum.splits)

theorem generate_blog_validation_witness:
  "generate_blog (stub_environment [] 0) (JObj [(''12.Topic Name'', JStr ''Growth'')]) =
     (\<lparr>status = 400,
       body = JObj [(''error'', JStr ''Missing required field: 2.AI Transcript Rough'')]\<rparr>, []) \<and>
   generate_blog (stub_environment [] 0)
       (JObj [(''2.AI Transcript Rough'', JStr ''We discussed Q3 growth.'')]) =
     (\<lparr>status = 400,
       body = JObj [(''error'', JStr ''Missing required field: 12.Topic Name'')]\<rparr>, []) \<and>
   snd (generate_blog (stub_environment [] 0)
       (JObj [(''2.AI Transcript Rough'', JStr ''We discussed Q3 growth.''),
              (''12.Topic Name'', JStr ''Growth'')])) =
     [JObj [(''2.AI Transcript Rough'', JStr ''We discussed Q3 growth.''),
            (''12.Topic Name'', JStr ''Growth'')]]"
  using
    generate_blog_validation [of "[(''12.Topic Name'', JStr ''Growth'')]" "stub_environment [] 0"]
    generate_blog_validation [of "[(''2.AI Transcript Rough'', JStr ''We discussed Q3 growth.'')]"
      "stub_environment [] 0"]
    generate_blog_validation [of "[(''2.AI Transcript Rough'', JStr ''We discussed Q3 growth.''),
      (''12.Topic Name'', JStr ''Growth'')]" "stub_environment [] 0"]
  by (simp add: dict_keys_def)

text \<open>
  The claim as stated covers every JSON body. A body that is not an object has none of
  the keys, yet it is not answered with status 400: on \<^verbatim>\<open>null\<close> and on a number the
  membership test raises and the answer is status 500; an array that holds the two field
  names as elements passes the test, and the generator is called.
\<close>

theorem generate_blog_non_object_counterexample:
  "generate_blog (stub_environment [] 0) JNull =
     (\<lparr>status = 500, body = JObj [(''error'', JStr ''Internal server error'')]\<rparr>, []) \<and>
   generate_blog (stub_environment [] 0) (JInt 7) =
     (\<lparr>status = 500, body = JObj [(''error'', JStr ''Internal server error'')]\<rparr>, []) \<and>
   generate_blog (stub_environment [] 0)
       (JArr [JStr ''2.AI Transcript Rough'', JStr ''12.Topic Name'']) =
     (\<lparr>status = 500, body = JObj [(''error'', JStr ''Internal server error'')]\<rparr>,
      [JArr [JStr ''2.AI Transcript Rough'', JStr ''12.Topic Name'']])"
  by (simp add: generate_blog_def required_fields_def BlogPostGenerator_def dict_items_def)

text \<open>
  What the two handlers do with a failure. \<^verbatim>\<open>/generate_blog\<close> answers with status 500 and
  the fixed text \<^verbatim>\<open>Internal server error\<close>, whatever the failure was; \<^verbatim>\<open>/generate_post\<close>
  answers with status 500 and the message of the exception.
\<close>

lemma handler_failures:
  "(first_missing required_fields request_json = Inl e \<longrightarrow>
      generate_blog env request_json =
        (\<lparr>status = 500, body = JObj [(''error'', JStr ''Internal server error'')]\<rparr>, [])) \<and>
   (first_missing required_fields request_json = Inr None \<and>
    BlogPostGenerator env request_json = Inl e \<longrightarrow>
      generate_blog env request_json =
        (\<lparr>status = 500, body = JObj [(''error'', JStr ''Internal server error'')]\<rparr>,
         [request_json])) \<and>
   (PostGenerator env request_json = Inl e \<longrightarrow>
      generate_post env request_json =
        (\<lparr>status = 500, body = JObj [(''error'', JStr (str_error e))]\<rparr>, [request_json]))"
  by (simp add: generate_blog_def generate_post_def)

lemma handler_failures_example:
  "generate_blog (stub_environment [] 0) JNull =
     (\<lparr>status = 500, body = JObj [(''error'', JStr ''Internal server error'')]\<rparr>, []) \<and>
   generate_blog (stub_environment [] 0) (JArr [JStr ''2.AI Transcript Rough'', JStr ''12.Topic Name'']) =
     (\<lparr>status = 500, body = JObj [(''error'', JStr ''Internal server error'')]\<rparr>,
      [JArr [JStr ''2.AI Transcript Rough'', JStr ''12.Topic Name'']]) \<and>
   generate_post (stub_environment [] 0) (JInt 7) =
     (\<lparr>status = 500,
       body = JObj [(''error'', JStr ([CHR 0x27] @ ''int'' @ [CHR 0x27] @ '' object has no attribute '' @
                                     [CHR 0x27] @ ''items'' @ [CHR 0x27]))]\<rparr>, [JInt 7])"
proof -
  let ?m = "\<lambda>t. [CHR 0x27] @ t @ [CHR 0x27] @ '' object has no attribute '' @
                 [CHR 0x27] @ ''items'' @ [CHR 0x27]"
  have a: "first_missing required_fields JNull =
      Inl (TypeError (''argument of type '' @ [CHR 0x27] @ ''NoneType'' @ [CHR 0x27] @ '' is not iterable''))"
    by (simp add: required_fields_def)
  have b: "first_missing required_fields (JArr [JStr ''2.AI Transcript Rough'', JStr ''12.Topic Name'']) =
      Inr None"
    by (simp add: required_fields_def)
  have c: "BlogPostGenerator (stub_environment [] 0)
      (JArr [JStr ''2.AI Transcript Rough'', JStr ''12.Topic Name'']) = Inl (AttributeError (?m ''list''))"
    by (simp add: BlogPostGenerator_def dict_items_def)
  have d: "PostGenerator (stub_environment [] 0) (JInt 7) = Inl (AttributeError (?m ''int''))"
    by (simp add: PostGenerator_def dict_items_def)
  show ?thesis
    using
      handler_failures [of JNull _ "stub_environment [] 0"]
      handler_failures [of "JArr [JStr ''2.AI Transcript Rough'', JStr ''12.Topic Name'']" _
        "stub_environment [] 0"]
      handler_failures [of "JInt 7" _ "stub_environment [] 0"]
      a b c d
    by simp
qed

text \<open>
  Claim C6. A failure on either endpoint is to be answered with status 500 and a generic
  message that holds no internal detail. \<^verbatim>\<open>/generate_blog\<close> does so; \<^verbatim>\<open>/generate_post\<close> does
  not. A body that is a JSON array makes \<^verbatim>\<open>request_data.items()\<close> raise in either
  generator: \<^verbatim>\<open>/generate_post\<close> returns the text of that exception to the caller, where
  \<^verbatim>\<open>/generate_blog\<close> returns the fixed text for the same failure.
\<close>

theorem generate_post_returns_exception_text:
  "PostGenerator (stub_environment [] 0) (JArr []) =
     Inl (AttributeError ([CHR 0x27] @ ''list'' @ [CHR 0x27] @ '' object has no attribute '' @
                          [CHR 0x27] @ ''items'' @ [CHR 0x27])) \<and>
   generate_post (stub_environment [] 0) (JArr []) =
     (\<lparr>status = 500,
       body = JObj [(''error'', JStr ([CHR 0x27] @ ''list'' @ [CHR 0x27] @ '' object has no attribute '' @
                                     [CHR 0x27] @ ''items'' @ [CHR 0x27]))]\<rparr>, [JArr []]) \<and>
   BlogPostGenerator (stub_environment [] 0)
       (JArr [JStr ''2.AI Transcript Rough'', JStr ''12.Topic Name'']) =
     Inl (AttributeError ([CHR 0x27] @ ''list'' @ [CHR 0x27] @ '' object has no attribute '' @
                          [CHR 0x27] @ ''items'' @ [CHR 0x27])) \<and>
   fst (generate_blog (stub_environment [] 0)
       (JArr [JStr ''2.AI Transcript Rough'', JStr ''12.Topic Name''])) =
     \<lparr>status = 500, body = JObj [(''error'', JStr ''Internal server error'')]\<rparr>"
  by (simp add: generate_post_def PostGenerator_def generate_blog_def required_fields_def
      BlogPostGenerator_def dict_items_def)

end
